theory Spec2Isabelle
  imports Main
begin

section \<open>Data model of common/error_matcher.go\<close>

text \<open>
  Go strings are byte sequences; they are modelled as \<^typ>\<open>string\<close> (a list of
  8-bit characters), so equality is byte-for-byte and case-sensitive.
\<close>

subsection \<open>Match types and rules\<close>

text \<open>
  Modelled from the spec: \<open>ErrorMatchType\<close> (a string type, compared with \<open>""\<close> in
  \<open>matchesPattern\<close>) and its four constants are declared in another file of the package;
  section 6 of the specification gives the recognised values \<open>exact\<close>, \<open>substring\<close>,
  \<open>wildcard\<close> and \<open>regex\<close>.
\<close>

type_synonym ErrorMatchType = string

definition ErrorMatchTypeExact :: ErrorMatchType where
  "ErrorMatchTypeExact = ''exact''"

definition ErrorMatchTypeSubstring :: ErrorMatchType where
  "ErrorMatchTypeSubstring = ''substring''"

definition ErrorMatchTypeWildcard :: ErrorMatchType where
  "ErrorMatchTypeWildcard = ''wildcard''"

definition ErrorMatchTypeRegex :: ErrorMatchType where
  "ErrorMatchTypeRegex = ''regex''"

text \<open>
  \<open>IgnoreErrorConfig\<close>: the three fields \<open>matchesPattern\<close> reads, as the tests build
  them (\<open>{Code: ..., Message: ..., MatchType: ...}\<close>). A field left out of a Go struct
  literal is the empty string.
\<close>

record IgnoreErrorConfig =
  Code :: string
  Message :: string
  MatchType :: ErrorMatchType

subsection \<open>Slices\<close>

text \<open>
  A Go slice is either \<open>nil\<close> or a sequence of elements: \<open>None\<close> is the nil slice,
  \<open>Some []\<close> an empty slice that is not nil. \<open>len\<close> of a nil slice is 0 and ranging
  over it visits nothing. An element of a slice \<open>[]*IgnoreErrorConfig\<close> is a pointer:
  \<open>None\<close> is the nil pointer, \<open>Some r\<close> a pointer to the rule \<open>r\<close>.
\<close>

type_synonym 'a slice = "'a list option"

fun elems :: "'a slice \<Rightarrow> 'a list" where
  "elems None = []"
| "elems (Some xs) = xs"

definition len :: "'a slice \<Rightarrow> nat" where
  "len s = length (elems s)"

text \<open>
  \<open>append(s, t...)\<close>: with nothing to add the slice \<open>s\<close> itself is returned (also when
  it is nil), otherwise a slice holding the elements of \<open>s\<close> followed by those of \<open>t\<close>.
\<close>

definition append_slice :: "'a slice \<Rightarrow> 'a slice \<Rightarrow> 'a slice" where
  "append_slice s t = (if elems t = [] then s else Some (elems s @ elems t))"

subsection \<open>Error values\<close>

text \<open>
  \<open>BaseError\<close> is declared in another file of the package; the tests build it from a
  code and a message, and \<open>ShouldIgnoreError\<close> reads its code only.
\<close>

record BaseError =
  BaseError_Code :: string
  BaseError_Message :: string

text \<open>
  A value of Go's interface type \<open>error\<close>, by what the matcher can observe of it:
  \<^item> \<open>errorString s\<close> is \<open>errors.New(s)\<close> (and \<open>fmt.Errorf\<close> without \<open>%w\<close>): a plain
    error with the text \<open>s\<close>;
  \<^item> \<open>wrapError msg cause\<close> is what \<open>fmt.Errorf\<close> builds for a format with \<open>%w\<close>: a
    decorator with the rendered text \<open>msg\<close> that holds \<open>cause\<close> and answers to
    \<open>Unwrap\<close>, but does not implement \<open>StandardError\<close>;
  \<^item> \<open>standardError msg base\<close> is a value of any type that implements the
    \<open>StandardError\<close> interface: \<open>msg\<close> is what its \<open>Error()\<close> renders and \<open>base\<close> what
    its \<open>Base()\<close> returns (\<open>None\<close> for a nil \<open>*BaseError\<close>).
  A nil interface value is \<open>None\<close> of type \<open>error option\<close>.
\<close>

datatype error =
    errorString string
  | wrapError string error
  | standardError string "BaseError option"

fun Error :: "error \<Rightarrow> string" where
  "Error (errorString s) = s"
| "Error (wrapError msg cause) = msg"
| "Error (standardError msg base) = msg"

text \<open>
  The type assertion \<open>err.(StandardError)\<close>: \<open>None\<close> when the assertion fails (\<open>ok\<close> is
  false), otherwise the result of \<open>Base()\<close> on the asserted value. Only the dynamic type
  of the value itself is looked at; the cause held by a \<open>wrapError\<close> is not.
\<close>

fun assertStandardError :: "error \<Rightarrow> BaseError option option" where
  "assertStandardError (errorString s) = None"
| "assertStandardError (wrapError msg cause) = None"
| "assertStandardError (standardError msg base) = Some base"

section \<open>Library functions the matcher calls\<close>

subsection \<open>strings.Contains\<close>

fun HasPrefix :: "string \<Rightarrow> string \<Rightarrow> bool" where
  "HasPrefix s [] = True"
| "HasPrefix [] (c # prefix) = False"
| "HasPrefix (d # s) (c # prefix) = (d = c \<and> HasPrefix s prefix)"

fun Contains :: "string \<Rightarrow> string \<Rightarrow> bool" where
  "Contains [] substr = (substr = [])"
| "Contains (d # s) substr = (HasPrefix (d # s) substr \<or> Contains s substr)"

subsection \<open>regexp.Compile and Regexp.MatchString\<close>

text \<open>
  Package \<open>regexp\<close> is Go's standard library, not code of this repository. A compiled
  expression is modelled by the matches it has: \<open>re before region after\<close> holds when
  \<open>region\<close> is a match of the expression inside the text \<open>before @ region @ after\<close>
  (the context is there for anchors and word boundaries). \<open>regexp.Compile\<close> is a
  parameter \<open>compile\<close> of the matcher, returning \<open>Inl err\<close> when the pattern does not
  compile. \<open>MatchString\<close> follows the library's documentation: it reports whether the
  string contains any match of the expression.
\<close>

type_synonym Regexp = "string \<Rightarrow> string \<Rightarrow> string \<Rightarrow> bool"

fun splits :: "'a list \<Rightarrow> ('a list \<times> 'a list) list" where
  "splits [] = [([], [])]"
| "splits (x # xs) = ([], x # xs) # map (\<lambda>(a, b). (x # a, b)) (splits xs)"

definition MatchString :: "Regexp \<Rightarrow> string \<Rightarrow> bool" where
  "MatchString re s =
     list_ex (\<lambda>(before, rest).
       list_ex (\<lambda>(region, after). re before region after) (splits rest)) (splits s)"

text \<open>
  Two instances of the parameter \<open>compile\<close>, for closed examples. \<open>compileLiteral\<close>
  answers every pattern with the expression that matches the pattern's own text, which
  is what the library does on a pattern without metacharacters; \<open>compileFails\<close> answers
  with an error, which is what the library does on a malformed pattern such as
  \<open>[invalid(regex\<close>. The theorems hold for every \<open>compile\<close>.
\<close>

definition literalRegexp :: "string \<Rightarrow> Regexp" where
  "literalRegexp lit = (\<lambda>before region after. region = lit)"

definition compileLiteral :: "string \<Rightarrow> error + Regexp" where
  "compileLiteral pattern = Inr (literalRegexp pattern)"

definition compileFails :: "string \<Rightarrow> error + Regexp" where
  "compileFails pattern = Inl (errorString ''error parsing regexp: missing closing ]'')"

subsection \<open>WildcardMatch\<close>

text \<open>
  Modelled from the spec: \<open>WildcardMatch(pattern, value)\<close> is a function of the package
  defined in another file. Section 4.1 of the specification: the pattern is a glob-style
  expression where \<open>*\<close> matches zero or more arbitrary characters, no other wildcard
  character is defined, and the match is anchored to the whole target. The specification
  names no pattern as structurally invalid, so this model returns no error; the matcher
  below takes the wildcard function as a parameter \<open>wildcard\<close>, so that its error branch
  is covered for any implementation.
\<close>

fun globMatch :: "string \<Rightarrow> string \<Rightarrow> bool" where
  "globMatch [] [] = True"
| "globMatch [] (d # t) = False"
| "globMatch (c # p) [] = (c = CHR ''*'' \<and> globMatch p [])"
| "globMatch (c # p) (d # t) =
     (if c = CHR ''*'' then globMatch p (d # t) \<or> globMatch (c # p) t
      else c = d \<and> globMatch p t)"

definition WildcardMatch :: "string \<Rightarrow> string \<Rightarrow> error + bool" where
  "WildcardMatch pattern value = Inr (globMatch pattern value)"

text \<open>
  An instance of the parameter \<open>wildcard\<close> that reports every pattern as invalid, for a
  closed example of the error branch.
\<close>

definition wildcardFails :: "string \<Rightarrow> string \<Rightarrow> error + bool" where
  "wildcardFails pattern value = Inl (errorString ''invalid wildcard pattern'')"

section \<open>The matcher\<close>

text \<open>
  A run-time panic ends a call without a result. The functions that can panic return
  \<open>panic + bool\<close>: \<open>Inl\<close> the panic, \<open>Inr\<close> the boolean returned.
\<close>

datatype panic = NilPointerDereference

record ErrorMatcher =
  patterns :: "IgnoreErrorConfig option slice"

text \<open>\<open>NewErrorMatcher\<close> returns a pointer to a fresh matcher, which is never nil.\<close>

definition NewErrorMatcher :: "IgnoreErrorConfig option slice \<Rightarrow> ErrorMatcher option" where
  "NewErrorMatcher ps =
     (let ps = (if ps = None then Some [] else ps)
      in Some \<lparr>patterns = ps\<rparr>)"

text \<open>
  \<open>matchString\<close> (lines 80-112). The receiver is not used. The \<open>switch\<close> compares the
  match type with the four constants in turn; \<open>default\<close> is the last branch.
\<close>

definition matchString ::
  "(string \<Rightarrow> error + Regexp) \<Rightarrow> (string \<Rightarrow> string \<Rightarrow> error + bool) \<Rightarrow>
   string \<Rightarrow> string \<Rightarrow> ErrorMatchType \<Rightarrow> bool" where
  "matchString compile wildcard target pattern matchType =
     (if target = [] \<or> pattern = [] then False
      else if matchType = ErrorMatchTypeExact then target = pattern
      else if matchType = ErrorMatchTypeSubstring then Contains target pattern
      else if matchType = ErrorMatchTypeWildcard then
        (case wildcard pattern target of
           Inl err \<Rightarrow> Contains target pattern
         | Inr matched \<Rightarrow> matched)
      else if matchType = ErrorMatchTypeRegex then
        (case compile pattern of
           Inl err \<Rightarrow> Contains target pattern
         | Inr re \<Rightarrow> MatchString re target)
      else Contains target pattern)"

text \<open>
  \<open>matchesPattern\<close> (lines 52-77), on the rule its argument points to. The first thing
  the source does is read \<open>pattern.MatchType\<close> (line 54), so a call with a nil pointer
  panics there; that case is the \<open>None\<close> equation of the loop \<open>checkEach\<close> below, which
  is the only caller.
\<close>

definition matchesPattern ::
  "(string \<Rightarrow> error + Regexp) \<Rightarrow> (string \<Rightarrow> string \<Rightarrow> error + bool) \<Rightarrow>
   string \<Rightarrow> string \<Rightarrow> IgnoreErrorConfig \<Rightarrow> bool" where
  "matchesPattern compile wildcard errMsg errCode pattern =
     (let matchType = MatchType pattern;
          matchType = (if matchType = [] then ErrorMatchTypeSubstring else matchType)
      in if Code pattern \<noteq> [] \<and> \<not> matchString compile wildcard errCode (Code pattern) matchType
         then False
         else if Message pattern \<noteq> [] \<and>
                 \<not> matchString compile wildcard errMsg (Message pattern) matchType
         then False
         else Code pattern \<noteq> [] \<or> Message pattern \<noteq> [])"

text \<open>
  Lines 31-39 of \<open>ShouldIgnoreError\<close>: the code of the error, the empty string unless
  the value itself implements \<open>StandardError\<close> with a base that is not nil and a code
  that is not empty.
\<close>

definition errCode_of :: "error \<Rightarrow> string" where
  "errCode_of err =
     (case assertStandardError err of
        None \<Rightarrow> []
      | Some base \<Rightarrow>
          (case base of
             None \<Rightarrow> []
           | Some b \<Rightarrow> if BaseError_Code b \<noteq> [] then BaseError_Code b else []))"

text \<open>
  The loop of lines 42-48, over the pointers of the slice in order. The first pattern that
  matches ends it with true. A nil pointer reached before that is passed to
  \<open>matchesPattern\<close> and dereferenced at line 54: the call panics. A nil pointer after the
  first matching pattern is never reached.
\<close>

fun checkEach ::
  "(string \<Rightarrow> error + Regexp) \<Rightarrow> (string \<Rightarrow> string \<Rightarrow> error + bool) \<Rightarrow>
   string \<Rightarrow> string \<Rightarrow> IgnoreErrorConfig option list \<Rightarrow> panic + bool" where
  "checkEach compile wildcard errMsg errCode [] = Inr False"
| "checkEach compile wildcard errMsg errCode (None # rest) = Inl NilPointerDereference"
| "checkEach compile wildcard errMsg errCode (Some pattern # rest) =
     (if matchesPattern compile wildcard errMsg errCode pattern then Inr True
      else checkEach compile wildcard errMsg errCode rest)"

text \<open>
  \<open>ShouldIgnoreError\<close> (lines 24-49), with the receiver \<open>m\<close> as a pointer that may be nil.
\<close>

definition ShouldIgnoreError ::
  "(string \<Rightarrow> error + Regexp) \<Rightarrow> (string \<Rightarrow> string \<Rightarrow> error + bool) \<Rightarrow>
   ErrorMatcher option \<Rightarrow> error option \<Rightarrow> panic + bool" where
  "ShouldIgnoreError compile wildcard m err =
     (case err of
        None \<Rightarrow> Inr False
      | Some e \<Rightarrow>
          (case m of
             None \<Rightarrow> Inr False
           | Some mm \<Rightarrow>
               if len (patterns mm) = 0 then Inr False
               else let errMsg = Error e;
                        errCode = errCode_of e
                    in checkEach compile wildcard errMsg errCode (elems (patterns mm))))"

text \<open>\<open>MergePatterns\<close> (lines 116-126); \<open>make\<close> gives an empty slice that is not nil.\<close>

definition MergePatterns ::
  "IgnoreErrorConfig option slice \<Rightarrow> IgnoreErrorConfig option slice \<Rightarrow>
   IgnoreErrorConfig option slice \<Rightarrow> ErrorMatcher option" where
  "MergePatterns projectPatterns networkPatterns upstreamPatterns =
     (let allPatterns = Some [];
          allPatterns = append_slice allPatterns upstreamPatterns;
          allPatterns = append_slice allPatterns networkPatterns;
          allPatterns = append_slice allPatterns projectPatterns
      in NewErrorMatcher allPatterns)"

section \<open>Facts about the library functions\<close>

lemma HasPrefix_iff: "HasPrefix s p \<longleftrightarrow> (\<exists>post. s = p @ post)"
  by (induction s p rule: HasPrefix.induct) auto

lemma Contains_iff: "Contains s p \<longleftrightarrow> (\<exists>pre post. s = pre @ p @ post)"
proof (induction s)
  case Nil
  show ?case by auto
next
  case (Cons d s)
  have "(\<exists>pre post. d # s = pre @ p @ post) \<longleftrightarrow>
        (\<exists>post. d # s = p @ post) \<or> (\<exists>pre post. s = pre @ p @ post)"
    by (auto simp: Cons_eq_append_conv)
  with Cons show ?case by (simp add: HasPrefix_iff)
qed

lemma in_set_splits: "(a, b) \<in> set (splits xs) \<longleftrightarrow> a @ b = xs"
proof (induction xs arbitrary: a b)
  case Nil
  show ?case by auto
next
  case (Cons x xs)
  show ?case
  proof (cases a)
    case Nil
    then show ?thesis by auto
  next
    case (Cons y a')
    have "(y # a', b) \<in> set (splits (x # xs)) \<longleftrightarrow> y = x \<and> (a', b) \<in> set (splits xs)"
      by (force simp: image_iff)
    with Cons.IH Cons show ?thesis by auto
  qed
qed

lemma set_splits: "set (splits xs) = {(a, b). a @ b = xs}"
  using in_set_splits by auto

lemma MatchString_iff:
  "MatchString re s \<longleftrightarrow> (\<exists>before region after. s = before @ region @ after \<and> re before region after)"
  by (auto simp: MatchString_def list_ex_iff set_splits)

lemma globMatch_Nil: "globMatch [] t \<longleftrightarrow> t = []"
  by (cases t) simp_all

lemma globMatch_char:
  "c \<noteq> CHR ''*'' \<Longrightarrow> globMatch (c # p) t \<longleftrightarrow> (\<exists>t'. t = c # t' \<and> globMatch p t')"
  by (cases t) auto

lemma globMatch_star:
  "globMatch (CHR ''*'' # p) t \<longleftrightarrow> (\<exists>mid rest. t = mid @ rest \<and> globMatch p rest)"
proof (induction t)
  case Nil
  show ?case by simp
next
  case (Cons d t)
  have "(\<exists>mid rest. d # t = mid @ rest \<and> globMatch p rest) \<longleftrightarrow>
        globMatch p (d # t) \<or> (\<exists>mid rest. t = mid @ rest \<and> globMatch p rest)"
    by (auto simp: Cons_eq_append_conv)
  with Cons show ?case by simp
qed

lemma globMatch_no_star: "CHR ''*'' \<notin> set p \<Longrightarrow> globMatch p t \<longleftrightarrow> t = p"
  by (induction p t rule: globMatch.induct) auto

lemma globMatch_append:
  "globMatch (p @ q) t \<longleftrightarrow> (\<exists>t1 t2. t = t1 @ t2 \<and> globMatch p t1 \<and> globMatch q t2)"
proof (induction p arbitrary: t)
  case Nil
  show ?case by (simp add: globMatch_Nil)
next
  case (Cons c p)
  show ?case
  proof (cases "c = CHR ''*''")
    case True
    have "globMatch ((c # p) @ q) t \<longleftrightarrow>
          (\<exists>mid rest. t = mid @ rest \<and> globMatch (p @ q) rest)"
      using True by (simp add: globMatch_star)
    also have "\<dots> \<longleftrightarrow> (\<exists>mid t1 t2. t = mid @ t1 @ t2 \<and> globMatch p t1 \<and> globMatch q t2)"
      unfolding Cons.IH by blast
    also have "\<dots> \<longleftrightarrow> (\<exists>u t2. t = u @ t2 \<and> (\<exists>mid t1. u = mid @ t1 \<and> globMatch p t1) \<and> globMatch q t2)"
      by (metis append.assoc)
    also have "\<dots> \<longleftrightarrow> (\<exists>u t2. t = u @ t2 \<and> globMatch (c # p) u \<and> globMatch q t2)"
      unfolding True globMatch_star ..
    finally show ?thesis .
  next
    case False
    have "globMatch ((c # p) @ q) t \<longleftrightarrow> (\<exists>t'. t = c # t' \<and> globMatch (p @ q) t')"
      using False by (simp add: globMatch_char)
    also have "\<dots> \<longleftrightarrow> (\<exists>t1 t2. t = c # t1 @ t2 \<and> globMatch p t1 \<and> globMatch q t2)"
      unfolding Cons.IH by blast
    also have "\<dots> \<longleftrightarrow> (\<exists>u t2. t = u @ t2 \<and> (\<exists>t1. u = c # t1 \<and> globMatch p t1) \<and> globMatch q t2)"
      by (metis append_Cons)
    also have "\<dots> \<longleftrightarrow> (\<exists>u t2. t = u @ t2 \<and> globMatch (c # p) u \<and> globMatch q t2)"
      unfolding globMatch_char [OF False] ..
    finally show ?thesis .
  qed
qed

lemma globMatch_around_star:
  "globMatch (p1 @ ''*'' @ p2) t \<longleftrightarrow>
     (\<exists>t1 mid t2. t = t1 @ mid @ t2 \<and> globMatch p1 t1 \<and> globMatch p2 t2)"
proof -
  have "globMatch (p1 @ ''*'' @ p2) t \<longleftrightarrow>
      (\<exists>t1 u. t = t1 @ u \<and> globMatch p1 t1 \<and> (\<exists>mid t2. u = mid @ t2 \<and> globMatch p2 t2))"
    by (simp add: globMatch_append [of p1] globMatch_star)
  also have "\<dots> \<longleftrightarrow> (\<exists>t1 mid t2. t = t1 @ mid @ t2 \<and> globMatch p1 t1 \<and> globMatch p2 t2)"
    by blast
  finally show ?thesis .
qed

section \<open>Facts about the matcher\<close>

lemma matchType_distinct:
  "ErrorMatchTypeExact \<noteq> ErrorMatchTypeSubstring" "ErrorMatchTypeExact \<noteq> ErrorMatchTypeWildcard"
  "ErrorMatchTypeExact \<noteq> ErrorMatchTypeRegex" "ErrorMatchTypeSubstring \<noteq> ErrorMatchTypeWildcard"
  "ErrorMatchTypeSubstring \<noteq> ErrorMatchTypeRegex" "ErrorMatchTypeWildcard \<noteq> ErrorMatchTypeRegex"
  "ErrorMatchTypeExact \<noteq> []" "ErrorMatchTypeSubstring \<noteq> []"
  "ErrorMatchTypeWildcard \<noteq> []" "ErrorMatchTypeRegex \<noteq> []"
  "ErrorMatchTypeSubstring \<noteq> ErrorMatchTypeExact" "ErrorMatchTypeWildcard \<noteq> ErrorMatchTypeExact"
  "ErrorMatchTypeRegex \<noteq> ErrorMatchTypeExact" "ErrorMatchTypeWildcard \<noteq> ErrorMatchTypeSubstring"
  "ErrorMatchTypeRegex \<noteq> ErrorMatchTypeSubstring" "ErrorMatchTypeRegex \<noteq> ErrorMatchTypeWildcard"
  by (simp_all add: ErrorMatchTypeExact_def ErrorMatchTypeSubstring_def
      ErrorMatchTypeWildcard_def ErrorMatchTypeRegex_def)

lemma checkEach_non_nil:
  "None \<notin> set ps \<Longrightarrow>
   checkEach compile wildcard errMsg errCode ps =
     Inr (\<exists>rule. Some rule \<in> set ps \<and> matchesPattern compile wildcard errMsg errCode rule)"
proof (induction ps)
  case Nil
  show ?case by simp
next
  case (Cons p ps)
  then obtain rule where p: "p = Some rule" by (cases p) auto
  from Cons have "checkEach compile wildcard errMsg errCode ps =
      Inr (\<exists>rule. Some rule \<in> set ps \<and> matchesPattern compile wildcard errMsg errCode rule)"
    by simp
  then show ?case unfolding p by auto
qed

lemma ShouldIgnoreError_Some:
  "None \<notin> set (elems (patterns mm)) \<Longrightarrow>
   ShouldIgnoreError compile wildcard (Some mm) (Some e) =
     Inr (\<exists>rule. Some rule \<in> set (elems (patterns mm))
            \<and> matchesPattern compile wildcard (Error e) (errCode_of e) rule)"
  by (auto simp: ShouldIgnoreError_def len_def checkEach_non_nil)

lemma ShouldIgnoreError_nil_error: "ShouldIgnoreError compile wildcard m None = Inr False"
  by (simp add: ShouldIgnoreError_def)

lemma ShouldIgnoreError_nil_matcher: "ShouldIgnoreError compile wildcard None err = Inr False"
  by (simp add: ShouldIgnoreError_def split: option.splits)

lemma ShouldIgnoreError_no_rules:
  "len (patterns mm) = 0 \<Longrightarrow> ShouldIgnoreError compile wildcard (Some mm) err = Inr False"
  by (simp add: ShouldIgnoreError_def split: option.splits)

lemma ShouldIgnoreError_New:
  "None \<notin> set (elems ps) \<Longrightarrow>
   ShouldIgnoreError compile wildcard (NewErrorMatcher ps) (Some e) =
     Inr (\<exists>rule. Some rule \<in> set (elems ps)
            \<and> matchesPattern compile wildcard (Error e) (errCode_of e) rule)"
  by (cases ps) (simp_all add: NewErrorMatcher_def ShouldIgnoreError_Some)

lemma ShouldIgnoreError_New_rules:
  "ShouldIgnoreError compile wildcard (NewErrorMatcher (Some (map Some rules))) (Some e) =
     Inr (\<exists>rule \<in> set rules. matchesPattern compile wildcard (Error e) (errCode_of e) rule)"
proof -
  have "None \<notin> set (elems (Some (map Some rules)))" by auto
  from ShouldIgnoreError_New [OF this, of compile wildcard e]
  show ?thesis by (auto simp: image_iff)
qed

lemma append_slice_Some: "append_slice (Some xs) t = Some (xs @ elems t)"
  by (simp add: append_slice_def)

lemma MergePatterns_patterns:
  "MergePatterns projectPatterns networkPatterns upstreamPatterns =
     Some \<lparr>patterns = Some (elems upstreamPatterns @ elems networkPatterns @ elems projectPatterns)\<rparr>"
  by (simp add: MergePatterns_def NewErrorMatcher_def append_slice_Some)

lemma ShouldIgnoreError_Merge:
  "None \<notin> set (elems U) \<union> set (elems N) \<union> set (elems P) \<Longrightarrow>
   ShouldIgnoreError compile wildcard (MergePatterns P N U) (Some e) =
     Inr (\<exists>rule. Some rule \<in> set (elems U) \<union> set (elems N) \<union> set (elems P)
            \<and> matchesPattern compile wildcard (Error e) (errCode_of e) rule)"
proof -
  assume "None \<notin> set (elems U) \<union> set (elems N) \<union> set (elems P)"
  then have "None \<notin> set (elems (patterns
      \<lparr>patterns = Some (elems U @ elems N @ elems P)\<rparr>))"
    by simp
  from ShouldIgnoreError_Some [OF this, of compile wildcard e]
  show ?thesis by (simp add: MergePatterns_patterns Un_assoc)
qed

lemma errCode_of_cases:
  "errCode_of e = (case e of standardError text (Some b) \<Rightarrow> BaseError_Code b | _ \<Rightarrow> [])"
  by (cases e) (auto simp: errCode_of_def split: option.splits)

section \<open>The claims\<close>

text \<open>
  C1, as amended. \<open>ShouldIgnoreError\<close> returns false when the error is nil and when the
  matcher holds no rule (a nil matcher among them). Otherwise, for a matcher none of whose
  rule pointers is nil, it returns true if and only if at least one rule of the matcher
  matches the message and the code taken from the error: a disjunction over all rules.
\<close>

theorem ShouldIgnoreError_any_rule:
  "ShouldIgnoreError compile wildcard m None = Inr False
   \<and> ShouldIgnoreError compile wildcard None err = Inr False
   \<and> (len (patterns mm) = 0 \<longrightarrow> ShouldIgnoreError compile wildcard (Some mm) err = Inr False)
   \<and> (None \<notin> set (elems (patterns mm)) \<longrightarrow>
        ShouldIgnoreError compile wildcard (Some mm) (Some e)
          = Inr (\<exists>rule. Some rule \<in> set (elems (patterns mm))
                   \<and> matchesPattern compile wildcard (Error e) (errCode_of e) rule))"
proof (intro conjI impI)
  show "ShouldIgnoreError compile wildcard m None = Inr False"
    by (rule ShouldIgnoreError_nil_error)
  show "ShouldIgnoreError compile wildcard None err = Inr False"
    by (rule ShouldIgnoreError_nil_matcher)
  show "ShouldIgnoreError compile wildcard (Some mm) err = Inr False" if "len (patterns mm) = 0"
    using that by (rule ShouldIgnoreError_no_rules)
  show "ShouldIgnoreError compile wildcard (Some mm) (Some e)
          = Inr (\<exists>rule. Some rule \<in> set (elems (patterns mm))
                   \<and> matchesPattern compile wildcard (Error e) (errCode_of e) rule)"
    if "None \<notin> set (elems (patterns mm))"
    using that by (rule ShouldIgnoreError_Some)
qed

theorem ShouldIgnoreError_any_rule_witness:
  "len (patterns \<lparr>patterns = Some []\<rparr>) = 0
   \<and> ShouldIgnoreError compileLiteral WildcardMatch (Some \<lparr>patterns = Some []\<rparr>)
        (Some (errorString ''nonce too low'')) = Inr False
   \<and> ShouldIgnoreError compileLiteral WildcardMatch
        (Some \<lparr>patterns = Some [Some \<lparr>Code = [], Message = ''nonce too low'', MatchType = []\<rparr>]\<rparr>)
        None = Inr False
   \<and> None \<notin> set (elems (patterns \<lparr>patterns = Some
           [Some \<lparr>Code = [], Message = ''transaction underpriced'',
                   MatchType = ErrorMatchTypeSubstring\<rparr>,
            Some \<lparr>Code = [], Message = ''nonce too low'', MatchType = []\<rparr>]\<rparr>))
   \<and> ShouldIgnoreError compileLiteral WildcardMatch
        (Some \<lparr>patterns = Some
           [Some \<lparr>Code = [], Message = ''transaction underpriced'',
                   MatchType = ErrorMatchTypeSubstring\<rparr>,
            Some \<lparr>Code = [], Message = ''nonce too low'', MatchType = []\<rparr>]\<rparr>)
        (Some (errorString ''the nonce too low for this tx'')) = Inr True
   \<and> ShouldIgnoreError compileLiteral WildcardMatch
        (Some \<lparr>patterns = Some
           [Some \<lparr>Code = [], Message = ''transaction underpriced'',
                   MatchType = ErrorMatchTypeSubstring\<rparr>,
            Some \<lparr>Code = [], Message = ''nonce too low'', MatchType = []\<rparr>]\<rparr>)
        (Some (errorString ''insufficient funds'')) = Inr False"
proof -
  let ?r1 = "\<lparr>Code = [], Message = ''transaction underpriced'', MatchType = ErrorMatchTypeSubstring\<rparr>"
  let ?r2 = "\<lparr>Code = [], Message = ''nonce too low'', MatchType = []\<rparr>"
  let ?mm = "\<lparr>patterns = Some [Some ?r1, Some ?r2]\<rparr>"
  have m1: "\<not> matchesPattern compileLiteral WildcardMatch ''the nonce too low for this tx'' [] ?r1"
    by (simp add: matchesPattern_def matchString_def matchType_distinct)
  have m2: "matchesPattern compileLiteral WildcardMatch ''the nonce too low for this tx'' [] ?r2"
    by (simp add: matchesPattern_def matchString_def matchType_distinct)
  have n1: "\<not> matchesPattern compileLiteral WildcardMatch ''insufficient funds'' [] ?r1"
    by (simp add: matchesPattern_def matchString_def matchType_distinct)
  have n2: "\<not> matchesPattern compileLiteral WildcardMatch ''insufficient funds'' [] ?r2"
    by (simp add: matchesPattern_def matchString_def matchType_distinct)
  have nn: "None \<notin> set (elems (patterns ?mm))" by simp
  have l0: "len (patterns \<lparr>patterns = Some ([] :: IgnoreErrorConfig option list)\<rparr>) = 0"
    by (simp add: len_def)
  note a = ShouldIgnoreError_any_rule [where compile = compileLiteral and wildcard = WildcardMatch
      and mm = "\<lparr>patterns = Some []\<rparr>" and err = "Some (errorString ''nonce too low'')"
      and m = "Some \<lparr>patterns = Some [Some ?r2]\<rparr>"]
  note b = ShouldIgnoreError_any_rule [where compile = compileLiteral and wildcard = WildcardMatch
      and mm = ?mm and e = "errorString ''the nonce too low for this tx''"]
  note c = ShouldIgnoreError_any_rule [where compile = compileLiteral and wildcard = WildcardMatch
      and mm = ?mm and e = "errorString ''insufficient funds''"]
  have 1: "ShouldIgnoreError compileLiteral WildcardMatch (Some \<lparr>patterns = Some []\<rparr>)
        (Some (errorString ''nonce too low'')) = Inr False"
    using a [THEN conjunct2, THEN conjunct2, THEN conjunct1] l0 by blast
  have 2: "ShouldIgnoreError compileLiteral WildcardMatch
        (Some \<lparr>patterns = Some [Some ?r2]\<rparr>) None = Inr False"
    by (rule a [THEN conjunct1])
  have 3: "ShouldIgnoreError compileLiteral WildcardMatch (Some ?mm)
        (Some (errorString ''the nonce too low for this tx'')) = Inr True"
    using b [THEN conjunct2, THEN conjunct2, THEN conjunct2] nn m2
    by (auto simp: errCode_of_def)
  have 4: "ShouldIgnoreError compileLiteral WildcardMatch (Some ?mm)
        (Some (errorString ''insufficient funds'')) = Inr False"
    using c [THEN conjunct2, THEN conjunct2, THEN conjunct2] nn n1 n2
    by (auto simp: errCode_of_def)
  from l0 1 2 nn 3 4 show ?thesis by blast
qed

text \<open>
  C1 as stated, for every matcher, fails: a nil rule pointer reached by the loop is
  dereferenced in \<open>matchesPattern\<close> and the call panics. With the rule list \<open>[nil, r]\<close>
  and an error that \<open>r\<close> matches, a rule of the matcher matches and yet the call does not
  return true; with \<open>[nil]\<close> it returns neither true nor false.
\<close>

theorem ShouldIgnoreError_any_rule_counterexample:
  "matchesPattern compileLiteral WildcardMatch (Error (errorString ''nonce too low''))
     (errCode_of (errorString ''nonce too low''))
     \<lparr>Code = [], Message = ''nonce too low'', MatchType = []\<rparr>
   \<and> ShouldIgnoreError compileLiteral WildcardMatch
        (Some \<lparr>patterns = Some
           [None, Some \<lparr>Code = [], Message = ''nonce too low'', MatchType = []\<rparr>]\<rparr>)
        (Some (errorString ''nonce too low'')) = Inl NilPointerDereference
   \<and> ShouldIgnoreError compileLiteral WildcardMatch
        (Some \<lparr>patterns = Some
           [None, Some \<lparr>Code = [], Message = ''nonce too low'', MatchType = []\<rparr>]\<rparr>)
        (Some (errorString ''nonce too low'')) \<noteq> Inr True
   \<and> ShouldIgnoreError compileLiteral WildcardMatch (Some \<lparr>patterns = Some [None]\<rparr>)
        (Some (errorString ''nonce too low'')) = Inl NilPointerDereference"
  by (simp add: ShouldIgnoreError_def len_def errCode_of_def matchesPattern_def
      matchString_def matchType_distinct)

text \<open>
  C2. A rule with a non-empty code pattern and a non-empty message pattern matches if and
  only if the code pattern matches the code of the error and the message pattern matches
  its message, both under the match type of the rule. Replacing the code alone, or the
  message alone, by one that its pattern does not match makes the rule fail. An error
  without a code has the empty string for its code, and such a rule does not match it.
\<close>

theorem matchesPattern_code_and_message:
  assumes "Code rule \<noteq> []" and "Message rule \<noteq> []"
  shows "(let matchType = (if MatchType rule = [] then ErrorMatchTypeSubstring else MatchType rule)
          in (matchesPattern compile wildcard errMsg errCode rule
                = (matchString compile wildcard errCode (Code rule) matchType
                   \<and> matchString compile wildcard errMsg (Message rule) matchType))
           \<and> (\<not> matchString compile wildcard errCode' (Code rule) matchType \<longrightarrow>
                \<not> matchesPattern compile wildcard errMsg errCode' rule)
           \<and> (\<not> matchString compile wildcard errMsg' (Message rule) matchType \<longrightarrow>
                \<not> matchesPattern compile wildcard errMsg' errCode rule)
           \<and> (ShouldIgnoreError compile wildcard (NewErrorMatcher (Some [Some rule])) (Some e)
                = Inr (matchString compile wildcard (errCode_of e) (Code rule) matchType
                       \<and> matchString compile wildcard (Error e) (Message rule) matchType))
           \<and> (assertStandardError e = None \<longrightarrow>
                errCode_of e = []
                \<and> ShouldIgnoreError compile wildcard (NewErrorMatcher (Some [Some rule])) (Some e)
                    = Inr False))"
proof -
  define matchType where
    "matchType = (if MatchType rule = [] then ErrorMatchTypeSubstring else MatchType rule)"
  have mp: "matchesPattern compile wildcard msg code rule
      = (matchString compile wildcard code (Code rule) matchType
         \<and> matchString compile wildcard msg (Message rule) matchType)" for msg code
    using assms by (auto simp: matchesPattern_def matchType_def Let_def)
  have si: "ShouldIgnoreError compile wildcard (NewErrorMatcher (Some [Some rule])) (Some e)
      = Inr (matchesPattern compile wildcard (Error e) (errCode_of e) rule)"
    using ShouldIgnoreError_New_rules [of compile wildcard "[rule]" e] by simp
  have nocode: "errCode_of e = []" if "assertStandardError e = None"
    using that by (simp add: errCode_of_def)
  have empty: "\<not> matchString compile wildcard [] (Code rule) matchType"
    by (simp add: matchString_def)
  show ?thesis
    unfolding Let_def matchType_def [symmetric]
    using mp si nocode empty by auto
qed

theorem matchesPattern_code_and_message_witness:
  "Code \<lparr>Code = ''ErrEndpointCapacityExceeded'', Message = ''rate limit'',
          MatchType = ErrorMatchTypeSubstring\<rparr> \<noteq> []
   \<and> Message \<lparr>Code = ''ErrEndpointCapacityExceeded'', Message = ''rate limit'',
          MatchType = ErrorMatchTypeSubstring\<rparr> \<noteq> []
   \<and> matchesPattern compileLiteral WildcardMatch ''rate limit exceeded''
        ''ErrEndpointCapacityExceeded''
        \<lparr>Code = ''ErrEndpointCapacityExceeded'', Message = ''rate limit'',
          MatchType = ErrorMatchTypeSubstring\<rparr>
   \<and> \<not> matchesPattern compileLiteral WildcardMatch ''rate limit exceeded''
        ''ErrSomeOtherError''
        \<lparr>Code = ''ErrEndpointCapacityExceeded'', Message = ''rate limit'',
          MatchType = ErrorMatchTypeSubstring\<rparr>
   \<and> \<not> matchesPattern compileLiteral WildcardMatch ''capacity full''
        ''ErrEndpointCapacityExceeded''
        \<lparr>Code = ''ErrEndpointCapacityExceeded'', Message = ''rate limit'',
          MatchType = ErrorMatchTypeSubstring\<rparr>
   \<and> ShouldIgnoreError compileLiteral WildcardMatch
        (NewErrorMatcher (Some [Some \<lparr>Code = ''ErrEndpointCapacityExceeded'',
          Message = ''rate limit'', MatchType = ErrorMatchTypeSubstring\<rparr>]))
        (Some (errorString ''rate limit exceeded'')) = Inr False"
proof -
  let ?rule = "\<lparr>Code = ''ErrEndpointCapacityExceeded'', Message = ''rate limit'',
          MatchType = ErrorMatchTypeSubstring\<rparr>"
  have c1: "matchString compileLiteral WildcardMatch ''ErrEndpointCapacityExceeded''
      ''ErrEndpointCapacityExceeded'' ErrorMatchTypeSubstring"
    by (simp add: matchString_def matchType_distinct)
  have c2: "\<not> matchString compileLiteral WildcardMatch ''ErrSomeOtherError''
      ''ErrEndpointCapacityExceeded'' ErrorMatchTypeSubstring"
    by (simp add: matchString_def matchType_distinct)
  have m1: "matchString compileLiteral WildcardMatch ''rate limit exceeded''
      ''rate limit'' ErrorMatchTypeSubstring"
    by (simp add: matchString_def matchType_distinct)
  have m2: "\<not> matchString compileLiteral WildcardMatch ''capacity full''
      ''rate limit'' ErrorMatchTypeSubstring"
    by (simp add: matchString_def matchType_distinct)
  show ?thesis
    using matchesPattern_code_and_message [where rule = ?rule and compile = compileLiteral
        and wildcard = WildcardMatch and errMsg = "''rate limit exceeded''"
        and errCode = "''ErrEndpointCapacityExceeded''" and errCode' = "''ErrSomeOtherError''"
        and errMsg' = "''capacity full''" and e = "errorString ''rate limit exceeded''"]
      c1 c2 m1 m2
    by (simp add: matchType_distinct matchString_def [of _ _ "[]"])
qed

text \<open>
  C3, as amended. \<open>MergePatterns\<close> builds the matcher over the upstream rules followed by
  the network rules followed by the project rules. When no rule pointer of any tier is
  nil, the merged matcher ignores an error if and only if some rule of some tier matches
  it, that is if and only if the matcher of one of the tiers ignores it, and passing the
  three tiers in any other order gives the same answer.
\<close>

theorem MergePatterns_union:
  "MergePatterns P N U = NewErrorMatcher (Some (elems U @ elems N @ elems P))
   \<and> (None \<notin> set (elems U) \<union> set (elems N) \<union> set (elems P) \<longrightarrow>
        ShouldIgnoreError compile wildcard (MergePatterns P N U) (Some e)
          = Inr (\<exists>rule. Some rule \<in> set (elems U) \<union> set (elems N) \<union> set (elems P)
                   \<and> matchesPattern compile wildcard (Error e) (errCode_of e) rule)
        \<and> ShouldIgnoreError compile wildcard (MergePatterns P N U) err
          = Inr (ShouldIgnoreError compile wildcard (NewErrorMatcher U) err = Inr True
                 \<or> ShouldIgnoreError compile wildcard (NewErrorMatcher N) err = Inr True
                 \<or> ShouldIgnoreError compile wildcard (NewErrorMatcher P) err = Inr True)
        \<and> ShouldIgnoreError compile wildcard (MergePatterns P N U) err
          = ShouldIgnoreError compile wildcard (MergePatterns P U N) err
        \<and> ShouldIgnoreError compile wildcard (MergePatterns P N U) err
          = ShouldIgnoreError compile wildcard (MergePatterns N P U) err
        \<and> ShouldIgnoreError compile wildcard (MergePatterns P N U) err
          = ShouldIgnoreError compile wildcard (MergePatterns N U P) err
        \<and> ShouldIgnoreError compile wildcard (MergePatterns P N U) err
          = ShouldIgnoreError compile wildcard (MergePatterns U P N) err
        \<and> ShouldIgnoreError compile wildcard (MergePatterns P N U) err
          = ShouldIgnoreError compile wildcard (MergePatterns U N P) err)"
proof (intro conjI impI)
  show "MergePatterns P N U = NewErrorMatcher (Some (elems U @ elems N @ elems P))"
    by (simp add: MergePatterns_patterns NewErrorMatcher_def)
next
  assume nn: "None \<notin> set (elems U) \<union> set (elems N) \<union> set (elems P)"
  then have nU: "None \<notin> set (elems U)" and nN: "None \<notin> set (elems N)"
    and nP: "None \<notin> set (elems P)"
    by auto
  have tiers: "ShouldIgnoreError compile wildcard (MergePatterns A B C) err
      = Inr (ShouldIgnoreError compile wildcard (NewErrorMatcher C) err = Inr True
             \<or> ShouldIgnoreError compile wildcard (NewErrorMatcher B) err = Inr True
             \<or> ShouldIgnoreError compile wildcard (NewErrorMatcher A) err = Inr True)"
    if "None \<notin> set (elems A)" and "None \<notin> set (elems B)" and "None \<notin> set (elems C)"
    for A B C
  proof (cases err)
    case None
    then show ?thesis by (simp add: ShouldIgnoreError_nil_error)
  next
    case (Some e')
    from that have "None \<notin> set (elems C) \<union> set (elems B) \<union> set (elems A)" by simp
    from ShouldIgnoreError_Merge [OF this, of compile wildcard e'] that Some
    show ?thesis by (auto simp: ShouldIgnoreError_New)
  qed
  show "ShouldIgnoreError compile wildcard (MergePatterns P N U) (Some e)
      = Inr (\<exists>rule. Some rule \<in> set (elems U) \<union> set (elems N) \<union> set (elems P)
               \<and> matchesPattern compile wildcard (Error e) (errCode_of e) rule)"
    using nn by (rule ShouldIgnoreError_Merge)
  show "ShouldIgnoreError compile wildcard (MergePatterns P N U) err
      = Inr (ShouldIgnoreError compile wildcard (NewErrorMatcher U) err = Inr True
             \<or> ShouldIgnoreError compile wildcard (NewErrorMatcher N) err = Inr True
             \<or> ShouldIgnoreError compile wildcard (NewErrorMatcher P) err = Inr True)"
    using nP nN nU by (rule tiers)
  show "ShouldIgnoreError compile wildcard (MergePatterns P N U) err
      = ShouldIgnoreError compile wildcard (MergePatterns P U N) err"
    unfolding tiers [OF nP nN nU] tiers [OF nP nU nN] by blast
  show "ShouldIgnoreError compile wildcard (MergePatterns P N U) err
      = ShouldIgnoreError compile wildcard (MergePatterns N P U) err"
    unfolding tiers [OF nP nN nU] tiers [OF nN nP nU] by blast
  show "ShouldIgnoreError compile wildcard (MergePatterns P N U) err
      = ShouldIgnoreError compile wildcard (MergePatterns N U P) err"
    unfolding tiers [OF nP nN nU] tiers [OF nN nU nP] by blast
  show "ShouldIgnoreError compile wildcard (MergePatterns P N U) err
      = ShouldIgnoreError compile wildcard (MergePatterns U P N) err"
    unfolding tiers [OF nP nN nU] tiers [OF nU nP nN] by blast
  show "ShouldIgnoreError compile wildcard (MergePatterns P N U) err
      = ShouldIgnoreError compile wildcard (MergePatterns U N P) err"
    unfolding tiers [OF nP nN nU] tiers [OF nU nN nP] by blast
qed

theorem MergePatterns_union_witness:
  "None \<notin> set (elems (Some [Some \<lparr>Code = [], Message = ''upstream error'', MatchType = []\<rparr>]))
       \<union> set (elems (Some [Some \<lparr>Code = [], Message = ''network error'', MatchType = []\<rparr>]))
       \<union> set (elems (Some [Some \<lparr>Code = [], Message = ''project error'', MatchType = []\<rparr>]))
   \<and> ShouldIgnoreError compileLiteral WildcardMatch
     (MergePatterns (Some [Some \<lparr>Code = [], Message = ''project error'', MatchType = []\<rparr>])
        (Some [Some \<lparr>Code = [], Message = ''network error'', MatchType = []\<rparr>])
        (Some [Some \<lparr>Code = [], Message = ''upstream error'', MatchType = []\<rparr>]))
     (Some (errorString ''network error'')) = Inr True
   \<and> ShouldIgnoreError compileLiteral WildcardMatch
     (MergePatterns (Some [Some \<lparr>Code = [], Message = ''upstream error'', MatchType = []\<rparr>])
        (Some [Some \<lparr>Code = [], Message = ''project error'', MatchType = []\<rparr>])
        (Some [Some \<lparr>Code = [], Message = ''network error'', MatchType = []\<rparr>]))
     (Some (errorString ''network error'')) = Inr True
   \<and> ShouldIgnoreError compileLiteral WildcardMatch
     (MergePatterns (Some [Some \<lparr>Code = [], Message = ''project error'', MatchType = []\<rparr>])
        None
        (Some [Some \<lparr>Code = [], Message = ''upstream error'', MatchType = []\<rparr>]))
     (Some (errorString ''network error'')) = Inr False"
proof -
  let ?p = "\<lparr>Code = [], Message = ''project error'', MatchType = []\<rparr>"
  let ?n = "\<lparr>Code = [], Message = ''network error'', MatchType = []\<rparr>"
  let ?u = "\<lparr>Code = [], Message = ''upstream error'', MatchType = []\<rparr>"
  let ?P = "Some [Some ?p]"
  let ?N = "Some [Some ?n]"
  let ?U = "Some [Some ?u]"
  let ?e = "errorString ''network error''"
  have p: "\<not> matchesPattern compileLiteral WildcardMatch ''network error'' [] ?p"
    by (simp add: matchesPattern_def matchString_def matchType_distinct)
  have n: "matchesPattern compileLiteral WildcardMatch ''network error'' [] ?n"
    by (simp add: matchesPattern_def matchString_def matchType_distinct)
  have u: "\<not> matchesPattern compileLiteral WildcardMatch ''network error'' [] ?u"
    by (simp add: matchesPattern_def matchString_def matchType_distinct)
  have c: "errCode_of ?e = []" by (simp add: errCode_of_def)
  have nn: "None \<notin> set (elems ?U) \<union> set (elems ?N) \<union> set (elems ?P)" by simp
  have nn': "None \<notin> set (elems ?U) \<union> set (elems None) \<union> set (elems ?P)" by simp
  note a = MergePatterns_union [where compile = compileLiteral and wildcard = WildcardMatch
      and P = ?P and N = ?N and U = ?U and e = ?e and err = "Some ?e",
      THEN conjunct2, rule_format, OF nn]
  note b = MergePatterns_union [where compile = compileLiteral and wildcard = WildcardMatch
      and P = ?P and N = None and U = ?U and e = ?e,
      THEN conjunct2, rule_format, OF nn']
  have 1: "ShouldIgnoreError compileLiteral WildcardMatch (MergePatterns ?P ?N ?U) (Some ?e)
      = Inr True"
    using a [THEN conjunct1] n c by auto
  have 2: "ShouldIgnoreError compileLiteral WildcardMatch (MergePatterns ?U ?P ?N) (Some ?e)
      = Inr True"
    using a 1 by metis
  have 3: "ShouldIgnoreError compileLiteral WildcardMatch (MergePatterns ?P None ?U) (Some ?e)
      = Inr False"
    using b [THEN conjunct1] p u c by auto
  from nn 1 2 3 show ?thesis by blast
qed

text \<open>
  C3 as stated, for all rule sequences, fails: with a nil rule pointer in one tier the
  outcome depends on the order of the tiers. With the project tier \<open>[nil]\<close> and the
  upstream tier \<open>[r]\<close> the merged list is \<open>[r, nil]\<close> and an error that \<open>r\<close> matches is
  ignored; with the two tiers exchanged the merged list is \<open>[nil, r]\<close> and the call
  panics, although a rule of a tier matches the error.
\<close>

theorem MergePatterns_union_counterexample:
  "ShouldIgnoreError compileLiteral WildcardMatch
     (MergePatterns (Some [None]) None
        (Some [Some \<lparr>Code = [], Message = ''x'', MatchType = []\<rparr>]))
     (Some (errorString ''x'')) = Inr True
   \<and> ShouldIgnoreError compileLiteral WildcardMatch
     (MergePatterns (Some [Some \<lparr>Code = [], Message = ''x'', MatchType = []\<rparr>]) None
        (Some [None]))
     (Some (errorString ''x'')) = Inl NilPointerDereference
   \<and> matchesPattern compileLiteral WildcardMatch (Error (errorString ''x''))
        (errCode_of (errorString ''x'')) \<lparr>Code = [], Message = ''x'', MatchType = []\<rparr>"
  by (simp add: MergePatterns_patterns ShouldIgnoreError_def len_def errCode_of_def
      matchesPattern_def matchString_def matchType_distinct)

text \<open>
  C4. The code is taken from the outermost error value only: it is the code of the base
  when the value itself implements \<open>StandardError\<close> with a base, and empty otherwise, so
  empty for a decorator around a structured error. A rule with a code pattern never
  matches an error whose code is empty; a matcher whose rules all have a code pattern
  (code-only rules among them) does not ignore a decorated error, while the structured
  error inside, when a code-only rule names its code exactly, is ignored.
\<close>

theorem code_of_outermost_error:
  "errCode_of e = (case e of standardError text (Some b) \<Rightarrow> BaseError_Code b | _ \<Rightarrow> [])
   \<and> errCode_of (wrapError msg cause) = []
   \<and> (Code rule \<noteq> [] \<and> errCode_of e = [] \<longrightarrow>
        \<not> matchesPattern compile wildcard (Error e) (errCode_of e) rule)
   \<and> ((\<forall>rule \<in> set rules. Code rule \<noteq> []) \<longrightarrow>
        ShouldIgnoreError compile wildcard (NewErrorMatcher (Some (map Some rules)))
          (Some (wrapError msg cause)) = Inr False)
   \<and> (BaseError_Code base \<noteq> [] \<and> rule \<in> set rules \<and> Code rule = BaseError_Code base
        \<and> Message rule = [] \<and> MatchType rule = ErrorMatchTypeExact \<longrightarrow>
        ShouldIgnoreError compile wildcard (NewErrorMatcher (Some (map Some rules)))
          (Some (standardError rendered (Some base))) = Inr True
        \<and> ShouldIgnoreError compile wildcard (NewErrorMatcher (Some [Some rule]))
            (Some (wrapError msg (standardError rendered (Some base)))) = Inr False)"
proof (intro conjI impI)
  show "errCode_of e = (case e of standardError text (Some b) \<Rightarrow> BaseError_Code b | _ \<Rightarrow> [])"
    by (rule errCode_of_cases)
  show w: "errCode_of (wrapError msg cause) = []" for cause
    by (simp add: errCode_of_def)
  show nc: "\<not> matchesPattern compile wildcard (Error e) (errCode_of e) rule"
    if "Code rule \<noteq> [] \<and> errCode_of e = []" for e rule
    using that by (simp add: matchesPattern_def matchString_def)
  show "ShouldIgnoreError compile wildcard (NewErrorMatcher (Some (map Some rules)))
          (Some (wrapError msg cause)) = Inr False" if "\<forall>rule \<in> set rules. Code rule \<noteq> []"
    using that nc [of _ "wrapError msg cause"] w by (auto simp: ShouldIgnoreError_New_rules)
  assume a: "BaseError_Code base \<noteq> [] \<and> rule \<in> set rules \<and> Code rule = BaseError_Code base
        \<and> Message rule = [] \<and> MatchType rule = ErrorMatchTypeExact"
  then have "matchesPattern compile wildcard rendered (BaseError_Code base) rule"
    by (simp add: matchesPattern_def matchString_def matchType_distinct)
  with a show "ShouldIgnoreError compile wildcard (NewErrorMatcher (Some (map Some rules)))
          (Some (standardError rendered (Some base))) = Inr True"
    by (auto simp: ShouldIgnoreError_New_rules errCode_of_def)
  from a show "ShouldIgnoreError compile wildcard (NewErrorMatcher (Some [Some rule]))
            (Some (wrapError msg (standardError rendered (Some base)))) = Inr False"
    using nc [of rule "wrapError msg (standardError rendered (Some base))"] w
      ShouldIgnoreError_New_rules [of compile wildcard "[rule]"
        "wrapError msg (standardError rendered (Some base))"]
    by simp
qed

theorem code_of_outermost_error_witness:
  "Code \<lparr>Code = ''ErrUpstreamRequest'', Message = [], MatchType = ErrorMatchTypeExact\<rparr> \<noteq> []
   \<and> ShouldIgnoreError compileLiteral WildcardMatch
        (NewErrorMatcher (Some [Some \<lparr>Code = ''ErrUpstreamRequest'', Message = [],
                                        MatchType = ErrorMatchTypeExact\<rparr>]))
        (Some (wrapError ''wrapped: ErrUpstreamRequest: upstream failed''
           (standardError ''ErrUpstreamRequest: upstream failed''
              (Some \<lparr>BaseError_Code = ''ErrUpstreamRequest'',
                      BaseError_Message = ''upstream failed''\<rparr>)))) = Inr False
   \<and> ShouldIgnoreError compileLiteral WildcardMatch
        (NewErrorMatcher (Some [Some \<lparr>Code = ''ErrUpstreamRequest'', Message = [],
                                        MatchType = ErrorMatchTypeExact\<rparr>]))
        (Some (standardError ''ErrUpstreamRequest: upstream failed''
           (Some \<lparr>BaseError_Code = ''ErrUpstreamRequest'',
                   BaseError_Message = ''upstream failed''\<rparr>))) = Inr True
   \<and> \<not> matchesPattern compileLiteral WildcardMatch ''some error''
        (errCode_of (errorString ''some error''))
        \<lparr>Code = ''ErrUpstreamRequest'', Message = [], MatchType = ErrorMatchTypeExact\<rparr>"
  using code_of_outermost_error [where compile = compileLiteral and wildcard = WildcardMatch
      and rules = "[\<lparr>Code = ''ErrUpstreamRequest'', Message = [], MatchType = ErrorMatchTypeExact\<rparr>]"
      and rule = "\<lparr>Code = ''ErrUpstreamRequest'', Message = [], MatchType = ErrorMatchTypeExact\<rparr>"
      and msg = "''wrapped: ErrUpstreamRequest: upstream failed''"
      and cause = "standardError ''ErrUpstreamRequest: upstream failed''
              (Some \<lparr>BaseError_Code = ''ErrUpstreamRequest'',
                      BaseError_Message = ''upstream failed''\<rparr>)"
      and rendered = "''ErrUpstreamRequest: upstream failed''"
      and base = "\<lparr>BaseError_Code = ''ErrUpstreamRequest'', BaseError_Message = ''upstream failed''\<rparr>"
      and e = "errorString ''some error''"]
  by simp


text \<open>
  C5. With match type \<open>wildcard\<close>, and target and pattern both non-empty,
  \<open>matchString\<close> returns what the wildcard function returns for the pattern and the
  target, and when that function reports an error (a structurally invalid expression) it
  returns whether the pattern occurs in the target; it never fails. With the glob
  semantics of the specification for the wildcard function: a pattern without \<open>*\<close>
  matches exactly itself, and \<open>p1*p2\<close> matches exactly the targets made of a match of
  \<open>p1\<close>, any characters (none included) and a match of \<open>p2\<close>, so the whole target is
  consumed. The pattern \<open>transaction*underpriced\<close> matches
  \<open>transaction is underpriced\<close> and \<open>transaction underpriced\<close> and does not match
  \<open>underpriced transaction\<close>.
\<close>

theorem matchString_wildcard:
  assumes "target \<noteq> []" and "pattern \<noteq> []"
  shows "matchString compile wildcard target pattern ErrorMatchTypeWildcard
           = (case wildcard pattern target of
                Inl err \<Rightarrow> (\<exists>pre post. target = pre @ pattern @ post)
              | Inr matched \<Rightarrow> matched)
       \<and> matchString compile WildcardMatch target pattern ErrorMatchTypeWildcard
           = globMatch pattern target
       \<and> (CHR ''*'' \<notin> set pattern \<longrightarrow> globMatch pattern target = (target = pattern))
       \<and> globMatch (p1 @ ''*'' @ p2) target
           = (\<exists>t1 mid t2. target = t1 @ mid @ t2 \<and> globMatch p1 t1 \<and> globMatch p2 t2)
       \<and> matchString compile WildcardMatch ''transaction is underpriced''
            ''transaction*underpriced'' ErrorMatchTypeWildcard
       \<and> matchString compile WildcardMatch ''transaction underpriced''
            ''transaction*underpriced'' ErrorMatchTypeWildcard
       \<and> \<not> matchString compile WildcardMatch ''underpriced transaction''
            ''transaction*underpriced'' ErrorMatchTypeWildcard"
proof (intro conjI impI)
  show "matchString compile wildcard target pattern ErrorMatchTypeWildcard
      = (case wildcard pattern target of
           Inl err \<Rightarrow> (\<exists>pre post. target = pre @ pattern @ post)
         | Inr matched \<Rightarrow> matched)"
    using assms by (simp add: matchString_def matchType_distinct Contains_iff split: sum.splits)
  show "matchString compile WildcardMatch target pattern ErrorMatchTypeWildcard
      = globMatch pattern target"
    using assms by (simp add: matchString_def matchType_distinct WildcardMatch_def)
  show "globMatch pattern target = (target = pattern)" if "CHR ''*'' \<notin> set pattern"
    using that by (rule globMatch_no_star)
  show "globMatch (p1 @ ''*'' @ p2) target
      = (\<exists>t1 mid t2. target = t1 @ mid @ t2 \<and> globMatch p1 t1 \<and> globMatch p2 t2)"
    by (rule globMatch_around_star)
  have ex1: "globMatch ''transaction*underpriced'' ''transaction is underpriced''"
    by simp
  then show "matchString compile WildcardMatch ''transaction is underpriced''
      ''transaction*underpriced'' ErrorMatchTypeWildcard"
    by (simp add: matchString_def matchType_distinct WildcardMatch_def)
  have ex2: "globMatch ''transaction*underpriced'' ''transaction underpriced''"
    by simp
  then show "matchString compile WildcardMatch ''transaction underpriced''
      ''transaction*underpriced'' ErrorMatchTypeWildcard"
    by (simp add: matchString_def matchType_distinct WildcardMatch_def)
  have ex3: "\<not> globMatch ''transaction*underpriced'' ''underpriced transaction''"
    by simp
  then show "\<not> matchString compile WildcardMatch ''underpriced transaction''
      ''transaction*underpriced'' ErrorMatchTypeWildcard"
    by (simp add: matchString_def matchType_distinct WildcardMatch_def)
qed

theorem matchString_wildcard_witness:
  "''see a*b here'' \<noteq> [] \<and> ''a*b'' \<noteq> []
   \<and> matchString compileLiteral wildcardFails ''see a*b here'' ''a*b'' ErrorMatchTypeWildcard
   \<and> \<not> matchString compileLiteral WildcardMatch ''see a*b here'' ''a*b'' ErrorMatchTypeWildcard
   \<and> matchString compileLiteral WildcardMatch ''a, then b'' ''a*b'' ErrorMatchTypeWildcard
   \<and> matchString compileLiteral WildcardMatch ''ab'' ''a*b'' ErrorMatchTypeWildcard
   \<and> matchString compileLiteral WildcardMatch ''transaction is underpriced''
        ''transaction*underpriced'' ErrorMatchTypeWildcard"
proof -
  have ne: "''see a*b here'' \<noteq> []" "''a*b'' \<noteq> []" "''a, then b'' \<noteq> []" "''ab'' \<noteq> []"
    by simp_all
  have split: "''see a*b here'' = ''see '' @ ''a*b'' @ '' here''" by simp
  have sub: "\<exists>pre post. ''see a*b here'' = pre @ ''a*b'' @ post"
    using split by blast
  note a = matchString_wildcard [where compile = compileLiteral and wildcard = wildcardFails,
      OF ne(1) ne(2)]
  note b = matchString_wildcard [where compile = compileLiteral and wildcard = WildcardMatch,
      OF ne(3) ne(2)]
  note c = matchString_wildcard [where compile = compileLiteral and wildcard = WildcardMatch,
      OF ne(4) ne(2)]
  have 1: "matchString compileLiteral wildcardFails ''see a*b here'' ''a*b'' ErrorMatchTypeWildcard"
    using a [THEN conjunct1] sub by (simp add: wildcardFails_def)
  have 2: "\<not> matchString compileLiteral WildcardMatch ''see a*b here'' ''a*b'' ErrorMatchTypeWildcard"
    using a [THEN conjunct2, THEN conjunct1] by simp
  have 3: "matchString compileLiteral WildcardMatch ''a, then b'' ''a*b'' ErrorMatchTypeWildcard"
    using b [THEN conjunct2, THEN conjunct1] by simp
  have 4: "matchString compileLiteral WildcardMatch ''ab'' ''a*b'' ErrorMatchTypeWildcard"
    using c [THEN conjunct2, THEN conjunct1] by simp
  have 5: "matchString compileLiteral WildcardMatch ''transaction is underpriced''
        ''transaction*underpriced'' ErrorMatchTypeWildcard"
    by (rule c [THEN conjunct2, THEN conjunct2, THEN conjunct2, THEN conjunct2, THEN conjunct1])
  from ne 1 2 3 4 5 show ?thesis by blast
qed

text \<open>
  C6. With match type \<open>regex\<close>, and target and pattern both non-empty: when the pattern
  compiles, \<open>matchString\<close> returns true if and only if some contiguous region of the
  target is a match of the expression (the match is not anchored to the whole target:
  a match stays one with any text before and after it); when the pattern does not
  compile, \<open>matchString\<close> does not fail and returns whether the pattern occurs in the
  target as a substring. If \<open>[invalid(regex\<close> does not compile, it matches every target
  that contains it literally.
\<close>

theorem matchString_regex:
  assumes "target \<noteq> []" and "pattern \<noteq> []"
  shows "matchString compile wildcard target pattern ErrorMatchTypeRegex
           = (case compile pattern of
                Inl err \<Rightarrow> (\<exists>pre post. target = pre @ pattern @ post)
              | Inr re \<Rightarrow>
                  (\<exists>before region after.
                     target = before @ region @ after \<and> re before region after))
       \<and> (compile pattern = Inr re \<and> re before region after \<and> before @ region @ after \<noteq> [] \<longrightarrow>
            matchString compile wildcard (before @ region @ after) pattern ErrorMatchTypeRegex)
       \<and> (compile ''[invalid(regex'' = Inl err \<longrightarrow>
            matchString compile wildcard (pre @ ''[invalid(regex'' @ post) ''[invalid(regex''
              ErrorMatchTypeRegex)"
proof (intro conjI impI)
  show "matchString compile wildcard target pattern ErrorMatchTypeRegex
           = (case compile pattern of
                Inl err \<Rightarrow> (\<exists>pre post. target = pre @ pattern @ post)
              | Inr re \<Rightarrow>
                  (\<exists>before region after.
                     target = before @ region @ after \<and> re before region after))"
    using assms
    by (simp add: matchString_def matchType_distinct Contains_iff MatchString_iff
        split: sum.splits)
next
  assume a: "compile pattern = Inr re \<and> re before region after \<and> before @ region @ after \<noteq> []"
  then have "MatchString re (before @ region @ after)"
    unfolding MatchString_iff by blast
  with a assms show "matchString compile wildcard (before @ region @ after) pattern
      ErrorMatchTypeRegex"
    by (simp add: matchString_def matchType_distinct)
next
  assume "compile ''[invalid(regex'' = Inl err"
  moreover have "Contains (pre @ ''[invalid(regex'' @ post) ''[invalid(regex''"
    unfolding Contains_iff by blast
  ultimately show "matchString compile wildcard (pre @ ''[invalid(regex'' @ post)
      ''[invalid(regex'' ErrorMatchTypeRegex"
    by (simp add: matchString_def matchType_distinct)
qed

theorem matchString_regex_witness:
  "''the nonce too low for this tx'' \<noteq> [] \<and> ''nonce too low'' \<noteq> []
   \<and> compileLiteral ''nonce too low'' = Inr (literalRegexp ''nonce too low'')
   \<and> literalRegexp ''nonce too low'' ''the '' ''nonce too low'' '' for this tx''
   \<and> matchString compileLiteral WildcardMatch ''the nonce too low for this tx''
        ''nonce too low'' ErrorMatchTypeRegex
   \<and> \<not> matchString compileLiteral WildcardMatch ''insufficient funds''
        ''nonce too low'' ErrorMatchTypeRegex
   \<and> compileFails ''[invalid(regex''
        = Inl (errorString ''error parsing regexp: missing closing ]'')
   \<and> matchString compileFails WildcardMatch ''this contains [invalid(regex pattern''
        ''[invalid(regex'' ErrorMatchTypeRegex
   \<and> \<not> matchString compileFails WildcardMatch ''this contains no such pattern''
        ''[invalid(regex'' ErrorMatchTypeRegex"
proof -
  have ne: "''the nonce too low for this tx'' \<noteq> []" "''nonce too low'' \<noteq> []"
    "''insufficient funds'' \<noteq> []" "''this contains no such pattern'' \<noteq> []"
    "''[invalid(regex'' \<noteq> []"
    by simp_all
  note a = matchString_regex [where compile = compileLiteral and wildcard = WildcardMatch
      and re = "literalRegexp ''nonce too low''" and before = "''the ''"
      and region = "''nonce too low''" and after = "'' for this tx''", OF ne(1) ne(2)]
  note b = matchString_regex [where compile = compileLiteral and wildcard = WildcardMatch,
      OF ne(3) ne(2)]
  note c = matchString_regex [where compile = compileFails and wildcard = WildcardMatch
      and err = "errorString ''error parsing regexp: missing closing ]''"
      and pre = "''this contains ''" and post = "'' pattern''", OF ne(4) ne(5)]
  have 0: "compileLiteral ''nonce too low'' = Inr (literalRegexp ''nonce too low'')"
    by (simp add: compileLiteral_def)
  have 1: "literalRegexp ''nonce too low'' ''the '' ''nonce too low'' '' for this tx''"
    by (simp add: literalRegexp_def)
  have 2: "matchString compileLiteral WildcardMatch ''the nonce too low for this tx''
        ''nonce too low'' ErrorMatchTypeRegex"
    using a [THEN conjunct2, THEN conjunct1] 0 1 by simp
  have "\<not> Contains ''insufficient funds'' ''nonce too low''" by simp
  then have nolit: "\<not> (\<exists>before region after. ''insufficient funds'' = before @ region @ after
      \<and> literalRegexp ''nonce too low'' before region after)"
    unfolding Contains_iff literalRegexp_def by blast
  have 3: "\<not> matchString compileLiteral WildcardMatch ''insufficient funds''
        ''nonce too low'' ErrorMatchTypeRegex"
    unfolding b [THEN conjunct1] 0 using nolit by simp
  have 4: "compileFails ''[invalid(regex''
        = Inl (errorString ''error parsing regexp: missing closing ]'')"
    by (simp add: compileFails_def)
  have 5: "matchString compileFails WildcardMatch ''this contains [invalid(regex pattern''
        ''[invalid(regex'' ErrorMatchTypeRegex"
    using c [THEN conjunct2, THEN conjunct2] 4 by simp
  have "\<not> Contains ''this contains no such pattern'' ''[invalid(regex''" by simp
  then have nosub: "\<not> (\<exists>pre post. ''this contains no such pattern''
      = pre @ ''[invalid(regex'' @ post)"
    unfolding Contains_iff .
  have 6: "\<not> matchString compileFails WildcardMatch ''this contains no such pattern''
        ''[invalid(regex'' ErrorMatchTypeRegex"
    unfolding c [THEN conjunct1] 4 using nosub by simp
  from ne 0 1 2 3 4 5 6 show ?thesis by blast
qed

text \<open>
  C7. With match type \<open>exact\<close>, and target and pattern both non-empty, \<open>matchString\<close>
  returns true if and only if the target equals the pattern byte for byte. A target that
  holds the pattern with something before or after it does not match.
\<close>

theorem matchString_exact:
  assumes "target \<noteq> []" and "pattern \<noteq> []"
  shows "matchString compile wildcard target pattern ErrorMatchTypeExact = (target = pattern)
       \<and> (pre \<noteq> [] \<or> post \<noteq> [] \<longrightarrow>
            \<not> matchString compile wildcard (pre @ pattern @ post) pattern ErrorMatchTypeExact)"
proof -
  have "pre @ pattern @ post = pattern \<longleftrightarrow> pre = [] \<and> post = []"
  proof
    assume "pre @ pattern @ post = pattern"
    then have "length (pre @ pattern @ post) = length pattern" by simp
    then show "pre = [] \<and> post = []" by simp
  qed simp
  with assms show ?thesis by (auto simp: matchString_def)
qed

theorem matchString_exact_witness:
  "''transaction underpriced'' \<noteq> []
   \<and> matchString compileLiteral WildcardMatch ''transaction underpriced''
        ''transaction underpriced'' ErrorMatchTypeExact
   \<and> \<not> matchString compileLiteral WildcardMatch ''error: transaction underpriced for account''
        ''transaction underpriced'' ErrorMatchTypeExact
   \<and> \<not> matchString compileLiteral WildcardMatch ''Transaction underpriced''
        ''transaction underpriced'' ErrorMatchTypeExact"
  using matchString_exact [where target = "''transaction underpriced''"
      and pattern = "''transaction underpriced''" and pre = "''error: ''"
      and post = "'' for account''" and compile = compileLiteral and wildcard = WildcardMatch]
    matchString_exact [where target = "''Transaction underpriced''"
      and pattern = "''transaction underpriced''" and pre = "[]" and post = "[]"
      and compile = compileLiteral and wildcard = WildcardMatch]
  by simp

text \<open>
  C8. With match type \<open>substring\<close>, and target and pattern both non-empty,
  \<open>matchString\<close> returns true if and only if the pattern occurs in the target, byte for
  byte. Every match type other than \<open>exact\<close>, \<open>wildcard\<close> and \<open>regex\<close> (the empty one
  among them) is evaluated the same way, and \<open>matchesPattern\<close> treats a rule with an empty
  match type as the same rule with match type \<open>substring\<close>.
\<close>

theorem matchString_substring:
  assumes "target \<noteq> []" and "pattern \<noteq> []"
  shows "matchString compile wildcard target pattern ErrorMatchTypeSubstring
           = (\<exists>pre post. target = pre @ pattern @ post)
       \<and> (matchType \<noteq> ErrorMatchTypeExact \<and> matchType \<noteq> ErrorMatchTypeWildcard
            \<and> matchType \<noteq> ErrorMatchTypeRegex \<longrightarrow>
          matchString compile wildcard target pattern matchType
            = (\<exists>pre post. target = pre @ pattern @ post))
       \<and> (MatchType rule = [] \<longrightarrow>
          matchesPattern compile wildcard errMsg errCode rule
            = matchesPattern compile wildcard errMsg errCode
                (rule\<lparr>MatchType := ErrorMatchTypeSubstring\<rparr>))"
proof (intro conjI impI)
  show "matchString compile wildcard target pattern ErrorMatchTypeSubstring
      = (\<exists>pre post. target = pre @ pattern @ post)"
    using assms by (simp add: matchString_def Contains_iff matchType_distinct)
next
  assume "matchType \<noteq> ErrorMatchTypeExact \<and> matchType \<noteq> ErrorMatchTypeWildcard
      \<and> matchType \<noteq> ErrorMatchTypeRegex"
  then show "matchString compile wildcard target pattern matchType
      = (\<exists>pre post. target = pre @ pattern @ post)"
    using assms by (simp add: matchString_def Contains_iff)
next
  assume "MatchType rule = []"
  then show "matchesPattern compile wildcard errMsg errCode rule
      = matchesPattern compile wildcard errMsg errCode (rule\<lparr>MatchType := ErrorMatchTypeSubstring\<rparr>)"
    by (simp add: matchesPattern_def matchType_distinct)
qed

theorem matchString_substring_witness:
  "''error: transaction underpriced for account'' \<noteq> [] \<and> ''transaction underpriced'' \<noteq> []
   \<and> matchString compileLiteral WildcardMatch ''error: transaction underpriced for account''
        ''transaction underpriced'' ErrorMatchTypeSubstring
   \<and> matchString compileLiteral WildcardMatch ''error: transaction underpriced for account''
        ''transaction underpriced'' ''fuzzy''
   \<and> \<not> matchString compileLiteral WildcardMatch ''error: Transaction underpriced for account''
        ''transaction underpriced'' []
   \<and> matchesPattern compileLiteral WildcardMatch ''the nonce too low for this tx'' []
        \<lparr>Code = [], Message = ''nonce too low'', MatchType = []\<rparr>"
proof -
  have mt: "''fuzzy'' \<noteq> ErrorMatchTypeExact \<and> ''fuzzy'' \<noteq> ErrorMatchTypeWildcard
      \<and> ''fuzzy'' \<noteq> ErrorMatchTypeRegex"
    "[] \<noteq> ErrorMatchTypeExact \<and> [] \<noteq> ErrorMatchTypeWildcard \<and> [] \<noteq> ErrorMatchTypeRegex"
    by (simp_all add: ErrorMatchTypeExact_def ErrorMatchTypeWildcard_def ErrorMatchTypeRegex_def)
  have split: "''error: transaction underpriced for account''
      = ''error: '' @ ''transaction underpriced'' @ '' for account''"
    by simp
  have yes: "\<exists>pre post. ''error: transaction underpriced for account''
      = pre @ ''transaction underpriced'' @ post"
    using split by blast
  have no: "\<not> Contains ''error: Transaction underpriced for account'' ''transaction underpriced''"
    by simp
  have rule: "matchesPattern compileLiteral WildcardMatch ''the nonce too low for this tx'' []
      \<lparr>Code = [], Message = ''nonce too low'', MatchType = ErrorMatchTypeSubstring\<rparr>"
    by (simp add: matchesPattern_def matchString_def matchType_distinct)
  show ?thesis
    using matchString_substring [where target = "''error: transaction underpriced for account''"
        and pattern = "''transaction underpriced''" and matchType = "''fuzzy''"
        and compile = compileLiteral and wildcard = WildcardMatch
        and rule = "\<lparr>Code = [], Message = ''nonce too low'', MatchType = []\<rparr>"
        and errMsg = "''the nonce too low for this tx''" and errCode = "[]"]
      matchString_substring [where target = "''error: Transaction underpriced for account''"
        and pattern = "''transaction underpriced''" and matchType = "[]"
        and compile = compileLiteral and wildcard = WildcardMatch]
      mt yes no rule
    by (simp add: Contains_iff)
qed

text \<open>
  C9. Whatever the match type, \<open>matchString\<close> returns false when the target is empty and
  when the pattern is empty; a rule whose code and message patterns are both empty matches
  no pair of message and code. Both functions are total: they return a boolean on every
  input.
\<close>

theorem matchString_empty:
  "\<not> matchString compile wildcard [] pattern matchType
   \<and> \<not> matchString compile wildcard target [] matchType
   \<and> (Code rule = [] \<and> Message rule = [] \<longrightarrow>
        \<not> matchesPattern compile wildcard errMsg errCode rule)"
  by (simp add: matchString_def matchesPattern_def)

theorem matchString_empty_witness:
  "\<not> matchString compileLiteral WildcardMatch [] ''*'' ErrorMatchTypeWildcard
   \<and> \<not> matchString compileLiteral WildcardMatch ''nonce too low'' [] ErrorMatchTypeSubstring
   \<and> Code \<lparr>Code = [], Message = [], MatchType = ErrorMatchTypeRegex\<rparr> = []
   \<and> Message \<lparr>Code = [], Message = [], MatchType = ErrorMatchTypeRegex\<rparr> = []
   \<and> \<not> matchesPattern compileLiteral WildcardMatch ''nonce too low'' ''ErrUpstreamRequest''
        \<lparr>Code = [], Message = [], MatchType = ErrorMatchTypeRegex\<rparr>"
  using matchString_empty [where compile = compileLiteral and wildcard = WildcardMatch
      and pattern = "''*''" and matchType = ErrorMatchTypeWildcard]
    matchString_empty [where compile = compileLiteral and wildcard = WildcardMatch
      and target = "''nonce too low''" and matchType = ErrorMatchTypeSubstring
      and rule = "\<lparr>Code = [], Message = [], MatchType = ErrorMatchTypeRegex\<rparr>"
      and errMsg = "''nonce too low''" and errCode = "''ErrUpstreamRequest''"]
  by simp

text \<open>
  C10. \<open>ShouldIgnoreError\<close> on a nil receiver returns false for every error, nil included.
  \<open>NewErrorMatcher\<close> on a nil rule list builds the same matcher as on an empty rule list,
  and that matcher ignores no error.
\<close>

theorem nil_matcher:
  "ShouldIgnoreError compile wildcard None err = Inr False
   \<and> NewErrorMatcher None = NewErrorMatcher (Some [])
   \<and> ShouldIgnoreError compile wildcard (NewErrorMatcher None) err
        = ShouldIgnoreError compile wildcard (NewErrorMatcher (Some [])) err
   \<and> ShouldIgnoreError compile wildcard (NewErrorMatcher None) err = Inr False"
  by (simp add: ShouldIgnoreError_def NewErrorMatcher_def len_def split: option.splits)

theorem nil_matcher_witness:
  "ShouldIgnoreError compileLiteral WildcardMatch None (Some (errorString ''some error''))
     = Inr False
   \<and> ShouldIgnoreError compileLiteral WildcardMatch (NewErrorMatcher None)
        (Some (errorString ''some error'')) = Inr False
   \<and> ShouldIgnoreError compileLiteral WildcardMatch (NewErrorMatcher None) None = Inr False"
proof -
  note a = nil_matcher [where compile = compileLiteral and wildcard = WildcardMatch
      and err = "Some (errorString ''some error'')"]
  note b = nil_matcher [where compile = compileLiteral and wildcard = WildcardMatch
      and err = None]
  from a b show ?thesis by blast
qed

end
